theory Spec2Isabelle
  imports Complex_Main "HOL-Library.Sublist"
begin

section \<open>Emergency response coordinator: data model\<close>

text \<open>
  A shallow embedding of \<^verbatim>\<open>src/main.py\<close>. Python \<^verbatim>\<open>str\<close> is \<^typ>\<open>string\<close> (the text in UTF-8), Python
  \<^verbatim>\<open>int\<close> is \<^typ>\<open>int\<close>, \<^verbatim>\<open>Optional[str]\<close> is \<^typ>\<open>string option\<close>, and the three
  dataclasses are records with the fields of the source, in its order.
\<close>

record EmergencyIncident =
  call_id :: string
  timestamp :: string
  location :: string
  description :: string
  severity_indicators :: "string list"
  caller_contact :: "string option"

record IncidentAssessment =
  incident_id :: string
  incident_type :: string
  severity_score :: int
  medical_priority :: string
  recommended_response :: string
  estimated_arrival_time :: string

record ResourceAllocation =
  allocation_id :: string
  ambulances_required :: int
  fire_trucks_required :: int
  personnel_required :: int
  estimated_cost :: int
  dispatch_order :: "string list"

section \<open>Strings and numbers of the source language\<close>

text \<open>
  A \<^typ>\<open>string\<close> holds a Python \<^verbatim>\<open>str\<close> in UTF-8, one \<^typ>\<open>char\<close> per byte: a character
  of the ASCII range is its own byte, below 128, and a character beyond it is a block of
  two to four bytes, all of them 128 or more.

  \<^verbatim>\<open>str.lower()\<close> on such text. In the ASCII range the letters \<^verbatim>\<open>A\<close> to \<^verbatim>\<open>Z\<close> (codes
  65 to 90) move to \<^verbatim>\<open>a\<close> to \<^verbatim>\<open>z\<close> and every other character stays. Beyond ASCII, two
  characters have a lower case that holds an ASCII letter: KELVIN SIGN (U+212A, the
  bytes E2 84 AA) becomes \<^verbatim>\<open>k\<close>, and LATIN CAPITAL LETTER I WITH DOT ABOVE (U+0130,
  the bytes C4 B0) becomes \<^verbatim>\<open>i\<close> followed by COMBINING DOT ABOVE (U+0307, the bytes
  CC 87). Every other character beyond ASCII has a lower case made of characters beyond
  ASCII, a block of bytes of 128 or more again; the model leaves such a block as it
  stands.
\<close>

definition lower_char :: "char \<Rightarrow> char" where
  "lower_char c =
     (let n = (of_char c :: nat) in if 65 \<le> n \<and> n \<le> 90 then char_of (n + 32) else c)"

definition kelvin_sign :: string where
  "kelvin_sign = [CHR 0xE2, CHR 0x84, CHR 0xAA]"

definition capital_i_with_dot_above :: string where
  "capital_i_with_dot_above = [CHR 0xC4, CHR 0xB0]"

definition combining_dot_above :: string where
  "combining_dot_above = [CHR 0xCC, CHR 0x87]"

fun lower :: "string \<Rightarrow> string" where
  "lower [] = []"
| "lower (c # cs) =
     (if prefix kelvin_sign (c # cs) then CHR ''k'' # lower (drop 2 cs)
      else if prefix capital_i_with_dot_above (c # cs)
        then CHR ''i'' # combining_dot_above @ lower (drop 1 cs)
      else lower_char c # lower cs)"

declare lower.simps [simp del]

text \<open>The bytes of the ASCII range; every byte of a character beyond it fails the test.\<close>

definition is_ascii :: "char \<Rightarrow> bool" where
  "is_ascii c \<longleftrightarrow> (of_char c :: nat) < 128"

text \<open>
  \<^verbatim>\<open>word in text\<close> on strings is the contiguous-substring test, \<^const>\<open>sublist\<close>;
  \<^verbatim>\<open>any(word in text for word in words)\<close> is \<^const>\<open>list_ex\<close> over the keyword list.
\<close>

definition any_word_in :: "string list \<Rightarrow> string \<Rightarrow> bool" where
  "any_word_in words text = list_ex (\<lambda>word. sublist word text) words"

text \<open>
  \<^verbatim>\<open>int(x)\<close> on a float truncates towards zero. The floats of the source are the sums
  \<^verbatim>\<open>base + n * 0.5\<close> with \<^verbatim>\<open>n\<close> the length of a list: halves of integers, which binary
  floating point holds exactly for every list length a machine can store, so they are
  modelled by the rationals they denote.
\<close>

definition int_of_float :: "rat \<Rightarrow> int" where
  "int_of_float x = (if x < 0 then \<lceil>x\<rceil> else \<lfloor>x\<rfloor>)"

section \<open>Assessment\<close>

text \<open>
  The keyword lists of the \<^verbatim>\<open>if\<close>/\<open>elif\<close> chain of \<^verbatim>\<open>_assess_incident\<close>, in the order the
  chain tests them.
\<close>

definition cardiac_keywords :: "string list" where
  "cardiac_keywords = [''cardiac'', ''heart'', ''chest pain'']"

definition trauma_keywords :: "string list" where
  "trauma_keywords = [''trauma'', ''accident'', ''hit'', ''crash'']"

definition fire_keywords :: "string list" where
  "fire_keywords = [''fire'', ''smoke'', ''burn'']"

text \<open>
  The chain itself: the pair \<^verbatim>\<open>(incident_type, base_severity)\<close> that it assigns for a
  lower-cased description.
\<close>

definition classify :: "string \<Rightarrow> string \<times> int" where
  "classify description_lower =
     (if any_word_in cardiac_keywords description_lower then (''CARDIAC'', 8)
      else if any_word_in trauma_keywords description_lower then (''TRAUMA'', 7)
      else if any_word_in fire_keywords description_lower then (''FIRE'', 8)
      else (''MEDICAL'', 5))"

text \<open>
  \<^verbatim>\<open>_assess_incident\<close>. The priority is read off the clamped value before it is
  truncated; the stored score is the truncation.
\<close>

definition assess_incident :: "EmergencyIncident \<Rightarrow> IncidentAssessment" where
  "assess_incident incident =
     (let description_lower = lower (description incident);
          (incident_type, base_severity) = classify description_lower;
          severity = of_int base_severity
                     + of_nat (length (severity_indicators incident)) * (1 / 2);
          severity = min 10 (max 1 severity);
          priority = (if severity \<ge> 8 then ''CRITICAL''
                      else if severity \<ge> 6 then ''HIGH''
                      else if severity \<ge> 4 then ''MEDIUM''
                      else ''LOW'')
      in \<lparr>incident_id = call_id incident,
          incident_type = incident_type,
          severity_score = int_of_float severity,
          medical_priority = priority,
          recommended_response = ''Deploy specialized '' @ incident_type @ '' response team'',
          estimated_arrival_time = ''5-8 minutes''\<rparr>)"

text \<open>
  Two values that \<^verbatim>\<open>_assess_incident\<close> holds in the variable \<^verbatim>\<open>severity\<close>, named so
  that properties can speak of them: after the first assignment (raw) and after the
  second (clamped).
\<close>

definition raw_severity :: "EmergencyIncident \<Rightarrow> rat" where
  "raw_severity incident =
     of_int (snd (classify (lower (description incident))))
     + of_nat (length (severity_indicators incident)) * (1 / 2)"

definition clamped_severity :: "EmergencyIncident \<Rightarrow> rat" where
  "clamped_severity incident = min 10 (max 1 (raw_severity incident))"

text \<open>
  The band table of the specification, on the integer score: at least 8 is CRITICAL, at
  least 6 is HIGH, at least 4 is MEDIUM, anything else LOW.
\<close>

definition priority_of_score :: "int \<Rightarrow> string" where
  "priority_of_score score =
     (if score \<ge> 8 then ''CRITICAL''
      else if score \<ge> 6 then ''HIGH''
      else if score \<ge> 4 then ''MEDIUM''
      else ''LOW'')"

text \<open>
  The severity rule in the specification's words: base plus one half per indicator,
  clamped to the interval from 1 to 10, then truncated.
\<close>

definition spec_severity :: "int \<Rightarrow> nat \<Rightarrow> int" where
  "spec_severity base n = int_of_float (min 10 (max 1 (of_int base + of_nat n / 2)))"

section \<open>Allocation\<close>

text \<open>
  \<^verbatim>\<open>f'{i}'\<close> for an integer \<^verbatim>\<open>i\<close> is its decimal numeral, with a minus sign when negative;
  \<^verbatim>\<open>range(n)\<close> is the list of the integers from 0 up to \<^verbatim>\<open>n - 1\<close>, empty when
  \<^verbatim>\<open>n\<close> is not positive.
\<close>

definition digit_char :: "nat \<Rightarrow> char" where
  "digit_char d = ''0123456789'' ! d"

function str_nat :: "nat \<Rightarrow> string" where
  "str_nat n = (if n < 10 then [digit_char n] else str_nat (n div 10) @ [digit_char (n mod 10)])"
  by pat_completeness auto
termination
  by (relation "measure id") auto

declare str_nat.simps [simp del]

definition str_int :: "int \<Rightarrow> string" where
  "str_int i = (if i < 0 then CHR ''-'' # str_nat (nat (- i)) else str_nat (nat i))"

definition py_range :: "int \<Rightarrow> int list" where
  "py_range n = [0..n - 1]"

text \<open>
  \<^verbatim>\<open>_allocate_resources\<close>: the three counts by incident type and score, then the record
  built from them. The incident type is compared as a string, so a type outside the three
  named ones takes the last branch.
\<close>

definition allocate_resources :: "IncidentAssessment \<Rightarrow> ResourceAllocation" where
  "allocate_resources assessment =
     (let (ambulances, fire_trucks, personnel) =
            (if incident_type assessment = ''CARDIAC'' then (2, 0, 6)
             else if incident_type assessment = ''TRAUMA'' then
               (if severity_score assessment \<ge> 7 then 2 else 1,
                if severity_score assessment \<ge> 8 then 1 else 0,
                if severity_score assessment \<ge> 8 then 8 else 4)
             else if incident_type assessment = ''FIRE'' then
               (2, if severity_score assessment \<ge> 8 then 3 else 2, 12)
             else (1, 0, 2))
      in \<lparr>allocation_id = ''ALLOC-'' @ incident_id assessment,
          ambulances_required = ambulances,
          fire_trucks_required = fire_trucks,
          personnel_required = personnel,
          estimated_cost = ambulances * 500 + fire_trucks * 1000 + personnel * 100,
          dispatch_order = map (\<lambda>i. ''Unit-'' @ str_int i) (py_range (ambulances + fire_trucks))\<rparr>)"

section \<open>Coordinator and registry\<close>

text \<open>
  An entry of \<^verbatim>\<open>active_incidents\<close> is the dictionary with the keys \<^verbatim>\<open>incident\<close>,
  \<^verbatim>\<open>assessment\<close>, \<^verbatim>\<open>resources\<close>, \<^verbatim>\<open>status\<close> and \<^verbatim>\<open>timestamp\<close>; the response is the
  dictionary returned to the caller. Keys that repeat a field name of an earlier record
  carry a suffix (\<open>_e\<close> for the entry, \<open>_r\<close> for the response).
\<close>

record ActiveIncident =
  incident :: EmergencyIncident
  assessment :: IncidentAssessment
  resources :: ResourceAllocation
  status :: string
  timestamp_e :: string

record Response =
  call_id_r :: string
  incident_type_r :: string
  severity :: int
  priority :: string
  dispatch_plan :: "string list"
  estimated_arrival :: string
  status_r :: string

text \<open>
  The coordinator object. \<^verbatim>\<open>active_incidents\<close> is a dictionary from call id to entry;
  \<^verbatim>\<open>session_memory\<close> is created empty and no method reads or writes it.
\<close>

record EmergencyResponseCoordinator =
  project_id :: string
  api_key :: "string option"
  active_incidents :: "string \<rightharpoonup> ActiveIncident"
  session_memory :: "string \<rightharpoonup> string"

definition init :: "string \<Rightarrow> string option \<Rightarrow> EmergencyResponseCoordinator" where
  "init pid key =
     \<lparr>project_id = pid, api_key = key, active_incidents = Map.empty, session_memory = Map.empty\<rparr>"

text \<open>
  \<^verbatim>\<open>process_emergency_call\<close>, with the coordinator passed in and returned. The clock
  reading \<^verbatim>\<open>datetime.now().isoformat()\<close> is the argument \<open>now\<close>; logging is left out.
\<close>

definition process_emergency_call ::
  "string \<Rightarrow> EmergencyIncident \<Rightarrow> EmergencyResponseCoordinator
     \<Rightarrow> Response \<times> EmergencyResponseCoordinator" where
  "process_emergency_call now inc self =
     (let assessment = assess_incident inc;
          resources = allocate_resources assessment;
          self = self\<lparr>active_incidents := (active_incidents self)(call_id inc \<mapsto>
                      \<lparr>incident = inc,
                       assessment = assessment,
                       resources = resources,
                       status = ''DISPATCHED'',
                       timestamp_e = now\<rparr>)\<rparr>;
          response = \<lparr>call_id_r = call_id inc,
                      incident_type_r = incident_type assessment,
                      severity = severity_score assessment,
                      priority = medical_priority assessment,
                      dispatch_plan = dispatch_order resources,
                      estimated_arrival = estimated_arrival_time assessment,
                      status_r = ''DISPATCHED''\<rparr>
      in (response, self))"

definition get_incident_status ::
  "EmergencyResponseCoordinator \<Rightarrow> string \<Rightarrow> ActiveIncident option" where
  "get_incident_status self cid = active_incidents self cid"

text \<open>
  \<^verbatim>\<open>update_incident_status\<close>: the status of a present entry is assigned in place and
  the result is \<^verbatim>\<open>True\<close>; an absent id gives \<^verbatim>\<open>False\<close> and touches nothing.
\<close>

definition update_incident_status ::
  "string \<Rightarrow> string \<Rightarrow> EmergencyResponseCoordinator \<Rightarrow> bool \<times> EmergencyResponseCoordinator" where
  "update_incident_status cid new_status self =
     (case active_incidents self cid of
        Some entry \<Rightarrow>
          (True, self\<lparr>active_incidents := (active_incidents self)(cid \<mapsto> entry\<lparr>status := new_status\<rparr>)\<rparr>)
      | None \<Rightarrow> (False, self))"

section \<open>Example inputs\<close>

text \<open>The incident that \<^verbatim>\<open>main\<close> builds, at a fixed clock reading.\<close>

definition cardiac_incident :: EmergencyIncident where
  "cardiac_incident =
     \<lparr>call_id = ''911-2024-001'',
      timestamp = ''2024-01-01T00:00:00'',
      location = ''123 Main St, Hospital District'',
      description = ''Patient experiencing severe chest pain, unresponsive'',
      severity_indicators = [''chest pain'', ''shortness of breath'', ''unresponsive''],
      caller_contact = Some ''555-0123''\<rparr>"

definition incident_of :: "string \<Rightarrow> string \<Rightarrow> string list \<Rightarrow> EmergencyIncident" where
  "incident_of cid text indicators =
     \<lparr>call_id = cid,
      timestamp = ''2024-01-01T00:00:00'',
      location = ''unknown'',
      description = text,
      severity_indicators = indicators,
      caller_contact = None\<rparr>"

definition assessment_of :: "string \<Rightarrow> int \<Rightarrow> IncidentAssessment" where
  "assessment_of ty score =
     \<lparr>incident_id = ''T-1'',
      incident_type = ty,
      severity_score = score,
      medical_priority = priority_of_score score,
      recommended_response = ''Deploy specialized '' @ ty @ '' response team'',
      estimated_arrival_time = ''5-8 minutes''\<rparr>"

section \<open>Properties of the assessment\<close>

lemma classify_cases:
  "classify d \<in> {(''CARDIAC'', 8), (''TRAUMA'', 7), (''FIRE'', 8), (''MEDICAL'', 5)}"
  by (simp add: classify_def)

lemma classify_base_ge_5: "5 \<le> snd (classify d)"
  using classify_cases [of d] by auto

lemma int_of_float_nonneg: "0 \<le> x \<Longrightarrow> int_of_float x = \<lfloor>x\<rfloor>"
  by (simp add: int_of_float_def)

lemma ge_int_of_float_iff:
  assumes "0 \<le> x" shows "of_int k \<le> x \<longleftrightarrow> k \<le> int_of_float x"
  using assms by (simp add: int_of_float_nonneg le_floor_iff)

text \<open>
  On a value that is not negative, the chain of comparisons of \<^verbatim>\<open>_assess_incident\<close>
  and the band table on the truncated value pick the same band: the thresholds are
  integers, so truncation cannot carry a value across one.
\<close>

lemma band_agrees:
  assumes "0 \<le> x"
  shows "(if x \<ge> 8 then ''CRITICAL'' else if x \<ge> 6 then ''HIGH''
          else if x \<ge> 4 then ''MEDIUM'' else ''LOW'') = priority_of_score (int_of_float x)"
  using ge_int_of_float_iff [OF assms, of 8] ge_int_of_float_iff [OF assms, of 6]
    ge_int_of_float_iff [OF assms, of 4]
  by (simp add: priority_of_score_def)

text \<open>The record that \<^const>\<open>assess_incident\<close> returns, field by field.\<close>

lemma assess_incident_eq:
  "assess_incident i =
     \<lparr>incident_id = call_id i,
      incident_type = fst (classify (lower (description i))),
      severity_score = int_of_float (clamped_severity i),
      medical_priority =
        (if clamped_severity i \<ge> 8 then ''CRITICAL''
         else if clamped_severity i \<ge> 6 then ''HIGH''
         else if clamped_severity i \<ge> 4 then ''MEDIUM''
         else ''LOW''),
      recommended_response =
        ''Deploy specialized '' @ fst (classify (lower (description i))) @ '' response team'',
      estimated_arrival_time = ''5-8 minutes''\<rparr>"
  unfolding assess_incident_def clamped_severity_def raw_severity_def Let_def case_prod_beta
  by (rule refl)

lemma clamped_severity_nonneg: "0 \<le> clamped_severity i"
  by (simp add: clamped_severity_def)

lemma raw_severity_ge_5: "5 \<le> raw_severity i"
proof -
  have "(5::rat) \<le> of_int (snd (classify (lower (description i))))"
    using classify_base_ge_5 [of "lower (description i)"] by linarith
  moreover have "(0::rat) \<le> of_nat (length (severity_indicators i)) * (1 / 2)"
    by simp
  ultimately show ?thesis
    unfolding raw_severity_def by linarith
qed

lemma floor_raw_severity:
  "\<lfloor>raw_severity i\<rfloor>
     = snd (classify (lower (description i))) + int (length (severity_indicators i) div 2)"
proof -
  have "\<lfloor>(of_nat (length (severity_indicators i)) :: rat) / of_nat 2\<rfloor>
          = int (length (severity_indicators i) div 2)"
    by (rule floor_divide_of_nat_eq)
  then show ?thesis
    by (simp add: raw_severity_def)
qed

lemma floor_min_10: "\<lfloor>min 10 (x::rat)\<rfloor> = min 10 \<lfloor>x\<rfloor>"
  by (simp add: min_def le_floor_iff)

text \<open>
  The stored score in integer arithmetic: every two indicators add one point, an odd
  one left over adds nothing, and the score stops at 10.
\<close>

lemma severity_score_eq:
  "severity_score (assess_incident i) =
     min 10 (snd (classify (lower (description i))) + int (length (severity_indicators i) div 2))"
proof -
  have "max 1 (raw_severity i) = raw_severity i"
    using raw_severity_ge_5 [of i] by simp
  then have "clamped_severity i = min 10 (raw_severity i)"
    by (simp add: clamped_severity_def)
  moreover have "0 \<le> clamped_severity i"
    by (rule clamped_severity_nonneg)
  ultimately have "int_of_float (clamped_severity i) = min 10 \<lfloor>raw_severity i\<rfloor>"
    by (simp add: int_of_float_nonneg floor_min_10)
  then show ?thesis
    by (simp add: assess_incident_eq floor_raw_severity)
qed

text \<open>
  Claim C1. For every incident the priority that the assessment returns is the band
  table applied to the stored, truncated score: at least 8 CRITICAL, at least 6 HIGH, at
  least 4 MEDIUM, otherwise LOW. The source reads the priority off the clamped value
  before truncation; the two readings agree on every incident.
\<close>

theorem priority_is_band_of_truncated_score:
  "medical_priority (assess_incident i) = priority_of_score (severity_score (assess_incident i))"
  using band_agrees [OF clamped_severity_nonneg [of i]]
  by (simp add: assess_incident_eq)

text \<open>
  Claim C3. For every incident, whatever its description and however many indicators it
  carries, the stored score is the base severity plus one half per indicator, clamped to
  1..10 and truncated; truncation drops the half of an odd count (it does not round it
  up); and the score lies between 1 and 10.
\<close>

theorem severity_score_clamped_truncated:
  "severity_score (assess_incident i)
     = spec_severity (snd (classify (lower (description i)))) (length (severity_indicators i))
   \<and> severity_score (assess_incident i)
     = min 10 (snd (classify (lower (description i))) + int (length (severity_indicators i) div 2))
   \<and> 1 \<le> severity_score (assess_incident i)
   \<and> severity_score (assess_incident i) \<le> 10"
proof -
  have a: "severity_score (assess_incident i)
     = spec_severity (snd (classify (lower (description i)))) (length (severity_indicators i))"
    by (simp add: assess_incident_eq spec_severity_def clamped_severity_def raw_severity_def)
  have b: "1 \<le> severity_score (assess_incident i)"
    using classify_base_ge_5 [of "lower (description i)"] by (simp add: severity_score_eq)
  have c: "severity_score (assess_incident i) \<le> 10"
    by (simp add: severity_score_eq)
  from a b c severity_score_eq [of i] show ?thesis by blast
qed

text \<open>
  Claim C9. For every incident the lower clamp is never the binding bound (the raw
  severity is its own maximum with 1), the stored score is at least 5, and the priority
  is never LOW.
\<close>

theorem severity_at_least_5_never_low:
  "max 1 (raw_severity i) = raw_severity i
   \<and> 5 \<le> severity_score (assess_incident i)
   \<and> medical_priority (assess_incident i) \<noteq> ''LOW''"
proof -
  have a: "max 1 (raw_severity i) = raw_severity i"
    using raw_severity_ge_5 [of i] by simp
  have b: "5 \<le> severity_score (assess_incident i)"
    using classify_base_ge_5 [of "lower (description i)"] by (simp add: severity_score_eq)
  have "5 \<le> clamped_severity i"
    using raw_severity_ge_5 [of i] by (simp add: clamped_severity_def)
  then have c: "medical_priority (assess_incident i) \<noteq> ''LOW''"
    by (simp add: assess_incident_eq)
  from a b c show ?thesis by blast
qed

section \<open>Classification\<close>

lemma incident_type_eq:
  "incident_type (assess_incident i) = fst (classify (lower (description i)))"
  by (simp add: assess_incident_eq)

text \<open>A keyword list matches a text when one of its words occurs anywhere in it.\<close>

lemma any_word_in_iff:
  "any_word_in words text \<longleftrightarrow> (\<exists>w \<in> set words. \<exists>before after. text = before @ w @ after)"
  by (simp add: any_word_in_def list_ex_iff sublist_def)

lemma lower_examples:
  "lower ''cardiac event during a fire'' = ''cardiac event during a fire''"
  "lower ''A FIRE broke out after a Cardiac arrest'' = ''a fire broke out after a cardiac arrest''"
  "lower ''Car crash, smoke from the engine'' = ''car crash, smoke from the engine''"
  "lower ''Smoke in the kitchen'' = ''smoke in the kitchen''"
  "lower ''Feeling dizzy'' = ''feeling dizzy''"
  "lower ''Patient experiencing severe chest pain, unresponsive''
     = ''patient experiencing severe chest pain, unresponsive''"
  by (simp_all add: lower.simps kelvin_sign_def capital_i_with_dot_above_def lower_char_def
      char_of_def bit_0)

lemma lower_char_examples:
  "lower_char CHR ''A'' = CHR ''a''" "lower_char CHR ''Z'' = CHR ''z''"
  "lower_char CHR ''@'' = CHR ''@''" "lower_char CHR ''['' = CHR ''[''"
  "lower_char CHR ''q'' = CHR ''q''" "lower_char CHR ''7'' = CHR ''7''"
  by (simp_all add: lower_char_def char_of_def bit_0)

subsection \<open>Characters beyond ASCII\<close>

text \<open>
  A block of bytes beyond ASCII separates the text around it: a word made of ASCII bytes
  occurs in the whole exactly when it occurs before the block or after it.
\<close>

lemma prefix_disjoint_block:
  assumes "prefix w (u @ ys)" and "set w \<inter> set u = {}" and "u \<noteq> []"
  shows "w = []"
proof (rule ccontr)
  assume "w \<noteq> []"
  then obtain a w' where w: "w = a # w'" by (cases w) auto
  from assms(3) obtain b u' where u: "u = b # u'" by (cases u) auto
  from assms(1) have "prefix (a # w') (b # (u' @ ys))" by (simp only: w u append_Cons)
  then have "a = b" by (simp only: Cons_prefix_Cons)
  moreover have "a \<in> set w" by (simp only: w list.set_intros)
  moreover have "b \<in> set u" by (simp only: u list.set_intros)
  ultimately have "a \<in> set w \<inter> set u" by (simp only: IntI)
  with assms(2) show False by (simp only: empty_iff)
qed

lemma subset_disjoint_nil:
  assumes "set w \<subseteq> set u" and "set w \<inter> set u = {}"
  shows "w = []"
proof -
  from assms(1) have "set w \<inter> set u = set w" by (rule Int_absorb2)
  with assms(2) have "set w = {}" by (simp only:)
  then show ?thesis by (simp only: set_empty)
qed

lemma suffix_disjoint_block:
  assumes "suffix w u" and "set w \<inter> set u = {}"
  shows "w = []"
  using set_mono_suffix [OF assms(1)] assms(2) by (rule subset_disjoint_nil)

lemma disjoint_append_left:
  assumes "set (w1 @ w2) \<inter> set u = {}"
  shows "set w1 \<inter> set u = {}" and "set w2 \<inter> set u = {}"
  using assms by (simp_all add: Int_Un_distrib2)

lemma sublist_after_block:
  assumes "sublist w (u @ ys)" and "set w \<inter> set u = {}" and "u \<noteq> []"
  shows "sublist w ys"
proof -
  from assms(1) have "sublist w u \<or> sublist w ys
      \<or> (\<exists>w1 w2. w = w1 @ w2 \<and> suffix w1 u \<and> prefix w2 ys)"
    by (simp only: sublist_append)
  then show ?thesis
  proof (elim disjE exE conjE)
    assume "sublist w u"
    then have "set w \<subseteq> set u" by (rule set_mono_sublist)
    then have "w = []" using assms(2) by (rule subset_disjoint_nil)
    then show ?thesis by (simp only: sublist_Nil_left)
  next
    assume "sublist w ys"
    then show ?thesis .
  next
    fix w1 w2 assume w: "w = w1 @ w2" and s: "suffix w1 u" and p: "prefix w2 ys"
    from assms(2) have "set w1 \<inter> set u = {}" unfolding w by (rule disjoint_append_left)
    with s have "w1 = []" by (rule suffix_disjoint_block)
    with w have "w = w2" by simp
    with p show ?thesis by (simp only: prefix_imp_sublist)
  qed
qed

lemma sublist_across_block:
  assumes "set w \<inter> set u = {}" and "u \<noteq> []"
  shows "sublist w (xs @ u @ ys) \<longleftrightarrow> sublist w xs \<or> sublist w ys"
proof
  assume "sublist w xs \<or> sublist w ys"
  then show "sublist w (xs @ u @ ys)"
  proof
    assume "sublist w xs"
    then show ?thesis by (simp only: sublist_append [of w xs] simp_thms)
  next
    assume "sublist w ys"
    then have "sublist w (u @ ys)" by (simp only: sublist_append [of w u] simp_thms)
    then show ?thesis by (simp only: sublist_append [of w xs] simp_thms)
  qed
next
  assume "sublist w (xs @ u @ ys)"
  then have "sublist w xs \<or> sublist w (u @ ys)
      \<or> (\<exists>w1 w2. w = w1 @ w2 \<and> suffix w1 xs \<and> prefix w2 (u @ ys))"
    by (simp only: sublist_append [of w xs])
  then show "sublist w xs \<or> sublist w ys"
  proof (elim disjE exE conjE)
    assume "sublist w xs"
    then show ?thesis ..
  next
    assume "sublist w (u @ ys)"
    then have "sublist w ys" using assms by (rule sublist_after_block)
    then show ?thesis ..
  next
    fix w1 w2 assume w: "w = w1 @ w2" and s: "suffix w1 xs" and p: "prefix w2 (u @ ys)"
    from assms(1) have "set w2 \<inter> set u = {}" unfolding w by (rule disjoint_append_left)
    with p have "w2 = []" using assms(2) by (rule prefix_disjoint_block)
    with w have "w = w1" by simp
    with s have "sublist w xs" by (simp only: suffix_imp_sublist)
    then show ?thesis ..
  qed
qed

lemma keywords_ascii:
  "\<forall>w \<in> set cardiac_keywords. \<forall>c \<in> set w. is_ascii c"
  "\<forall>w \<in> set trauma_keywords. \<forall>c \<in> set w. is_ascii c"
  "\<forall>w \<in> set fire_keywords. \<forall>c \<in> set w. is_ascii c"
  by (simp_all add: cardiac_keywords_def trauma_keywords_def fire_keywords_def is_ascii_def)

lemma ascii_disjoint:
  assumes "\<forall>c \<in> set w. is_ascii c" and "\<forall>c \<in> set u. \<not> is_ascii c"
  shows "set w \<inter> set u = {}"
proof (rule equals0I)
  fix c assume "c \<in> set w \<inter> set u"
  then have cw: "c \<in> set w" and cu: "c \<in> set u" by simp_all
  from assms(1) cw have a: "is_ascii c" by (rule bspec)
  from assms(2) cu have "\<not> is_ascii c" by (rule bspec)
  then show False using a by (rule notE)
qed

lemma any_word_in_across_block:
  assumes "\<forall>w \<in> set words. \<forall>c \<in> set w. is_ascii c"
    and "u \<noteq> []" and "\<forall>c \<in> set u. \<not> is_ascii c"
  shows "any_word_in words (xs @ u @ ys) \<longleftrightarrow> any_word_in words xs \<or> any_word_in words ys"
proof -
  have "sublist w (xs @ u @ ys) \<longleftrightarrow> sublist w xs \<or> sublist w ys" if "w \<in> set words" for w
  proof -
    from that assms(1) have "\<forall>c \<in> set w. is_ascii c" by simp
    then have "set w \<inter> set u = {}" using assms(3) by (rule ascii_disjoint)
    then show ?thesis using assms(2) by (rule sublist_across_block)
  qed
  then have "(\<exists>w \<in> set words. sublist w (xs @ u @ ys))
      \<longleftrightarrow> (\<exists>w \<in> set words. sublist w xs \<or> sublist w ys)"
    by simp
  then show ?thesis
    by (simp add: any_word_in_def list_ex_iff bex_disj_distrib)
qed

lemma classify_across_block:
  assumes "u \<noteq> []" and "\<forall>c \<in> set u. \<not> is_ascii c"
  shows "classify (xs @ u @ ys) =
     (if any_word_in cardiac_keywords xs \<or> any_word_in cardiac_keywords ys then (''CARDIAC'', 8)
      else if any_word_in trauma_keywords xs \<or> any_word_in trauma_keywords ys then (''TRAUMA'', 7)
      else if any_word_in fire_keywords xs \<or> any_word_in fire_keywords ys then (''FIRE'', 8)
      else (''MEDICAL'', 5))"
  unfolding classify_def
  by (simp only: any_word_in_across_block [OF keywords_ascii(1) assms]
      any_word_in_across_block [OF keywords_ascii(2) assms]
      any_word_in_across_block [OF keywords_ascii(3) assms])

lemma classify_block_independent:
  assumes "u \<noteq> []" and "\<forall>c \<in> set u. \<not> is_ascii c"
    and "v \<noteq> []" and "\<forall>c \<in> set v. \<not> is_ascii c"
  shows "classify (xs @ u @ ys) = classify (xs @ v @ ys)"
  by (simp only: classify_across_block [OF assms(1,2)] classify_across_block [OF assms(3,4)])

text \<open>
  Hence the chain gives the same result whatever non-empty block of bytes beyond ASCII
  stands at a given place; it is enough that the lower case of a character beyond ASCII,
  KELVIN SIGN and LATIN CAPITAL LETTER I WITH DOT ABOVE apart, is such a block.
\<close>

lemma lower_beyond_ascii_examples:
  "lower (''SMO'' @ kelvin_sign @ ''E in the hallway'') = ''smoke in the hallway''"
  "lower (''H'' @ capital_i_with_dot_above @ ''T by a car'')
     = ''hi'' @ combining_dot_above @ ''t by a car''"
  "lower ([CHR 0xC3, CHR 0x89] @ ''CRASH'') = [CHR 0xC3, CHR 0x89] @ ''crash''"
  by (simp_all add: lower.simps kelvin_sign_def capital_i_with_dot_above_def
      combining_dot_above_def lower_char_def char_of_def bit_0)

lemma classify_kelvin_example: "classify ''smoke in the hallway'' = (''FIRE'', 8)"
  by (simp add: classify_def any_word_in_def cardiac_keywords_def trauma_keywords_def
        fire_keywords_def sublist_Cons_right)

lemma classify_dotted_i_example:
  "classify (''hi'' @ combining_dot_above @ ''t by a car'') = (''MEDICAL'', 5)"
  by (simp add: classify_def any_word_in_def cardiac_keywords_def trauma_keywords_def
        fire_keywords_def sublist_Cons_right combining_dot_above_def)

lemma cardiac_in_fire_example: "any_word_in cardiac_keywords ''cardiac event during a fire''"
  by (simp add: any_word_in_def cardiac_keywords_def sublist_Cons_right)

text \<open>
  Claim C2. For every incident the type is that of the first keyword group, in the order
  CARDIAC, TRAUMA, FIRE, that has a word occurring in the lower-cased description, and
  MEDICAL when none has; a cardiac keyword decides wherever it stands in the text and
  whatever surrounds it. In particular the description "cardiac event during a fire" is
  assessed as CARDIAC.
\<close>

theorem classification_first_match_wins:
  "(any_word_in cardiac_keywords (lower (description i))
      \<longrightarrow> incident_type (assess_incident i) = ''CARDIAC'')
   \<and> (\<not> any_word_in cardiac_keywords (lower (description i))
      \<and> any_word_in trauma_keywords (lower (description i))
      \<longrightarrow> incident_type (assess_incident i) = ''TRAUMA'')
   \<and> (\<not> any_word_in cardiac_keywords (lower (description i))
      \<and> \<not> any_word_in trauma_keywords (lower (description i))
      \<and> any_word_in fire_keywords (lower (description i))
      \<longrightarrow> incident_type (assess_incident i) = ''FIRE'')
   \<and> (\<not> any_word_in cardiac_keywords (lower (description i))
      \<and> \<not> any_word_in trauma_keywords (lower (description i))
      \<and> \<not> any_word_in fire_keywords (lower (description i))
      \<longrightarrow> incident_type (assess_incident i) = ''MEDICAL'')
   \<and> (\<forall>w before after.
        w \<in> set cardiac_keywords \<and> lower (description i) = before @ w @ after
        \<longrightarrow> incident_type (assess_incident i) = ''CARDIAC'')
   \<and> (description i = ''cardiac event during a fire''
      \<longrightarrow> incident_type (assess_incident i) = ''CARDIAC'')"
proof (intro conjI allI impI)
  show "incident_type (assess_incident i) = ''CARDIAC''"
    if "any_word_in cardiac_keywords (lower (description i))"
    using that by (simp add: incident_type_eq classify_def)
  show "incident_type (assess_incident i) = ''TRAUMA''"
    if "\<not> any_word_in cardiac_keywords (lower (description i))
      \<and> any_word_in trauma_keywords (lower (description i))"
    using that by (simp add: incident_type_eq classify_def)
  show "incident_type (assess_incident i) = ''FIRE''"
    if "\<not> any_word_in cardiac_keywords (lower (description i))
      \<and> \<not> any_word_in trauma_keywords (lower (description i))
      \<and> any_word_in fire_keywords (lower (description i))"
    using that by (simp add: incident_type_eq classify_def)
  show "incident_type (assess_incident i) = ''MEDICAL''"
    if "\<not> any_word_in cardiac_keywords (lower (description i))
      \<and> \<not> any_word_in trauma_keywords (lower (description i))
      \<and> \<not> any_word_in fire_keywords (lower (description i))"
    using that by (simp add: incident_type_eq classify_def)
  show "incident_type (assess_incident i) = ''CARDIAC''"
    if "w \<in> set cardiac_keywords \<and> lower (description i) = before @ w @ after"
    for w before after
  proof -
    from that have "any_word_in cardiac_keywords (lower (description i))"
      unfolding any_word_in_iff by blast
    then show ?thesis by (simp add: incident_type_eq classify_def)
  qed
  show "incident_type (assess_incident i) = ''CARDIAC''"
    if "description i = ''cardiac event during a fire''"
    using that cardiac_in_fire_example
    by (simp add: incident_type_eq classify_def lower_examples(1))
qed

theorem classification_first_match_wins_witness:
  "any_word_in fire_keywords
     (lower (description (incident_of ''c-1'' ''cardiac event during a fire'' [])))
   \<and> incident_type (assess_incident (incident_of ''c-1'' ''cardiac event during a fire'' []))
       = ''CARDIAC''
   \<and> any_word_in fire_keywords
       (lower (description (incident_of ''c-2'' ''A FIRE broke out after a Cardiac arrest'' [])))
   \<and> incident_type
       (assess_incident (incident_of ''c-2'' ''A FIRE broke out after a Cardiac arrest'' []))
       = ''CARDIAC''
   \<and> any_word_in fire_keywords
       (lower (description (incident_of ''c-3'' ''Car crash, smoke from the engine'' [])))
   \<and> incident_type (assess_incident (incident_of ''c-3'' ''Car crash, smoke from the engine'' []))
       = ''TRAUMA''
   \<and> incident_type (assess_incident (incident_of ''c-4'' ''Smoke in the kitchen'' [])) = ''FIRE''
   \<and> incident_type (assess_incident (incident_of ''c-5'' ''Feeling dizzy'' [])) = ''MEDICAL''
   \<and> incident_type
       (assess_incident (incident_of ''c-6'' (''SMO'' @ kelvin_sign @ ''E in the hallway'') []))
       = ''FIRE''
   \<and> incident_type
       (assess_incident
          (incident_of ''c-7'' (''H'' @ capital_i_with_dot_above @ ''T by a car'') []))
       = ''MEDICAL''"
proof -
  have d: "description (incident_of c t xs) = t" for c t xs
    by (simp add: incident_of_def)
  have 1: "any_word_in fire_keywords ''cardiac event during a fire''"
    by (simp add: any_word_in_def fire_keywords_def sublist_Cons_right)
  have 2: "any_word_in cardiac_keywords ''a fire broke out after a cardiac arrest''"
    "any_word_in fire_keywords ''a fire broke out after a cardiac arrest''"
    by (simp_all add: any_word_in_def cardiac_keywords_def fire_keywords_def sublist_Cons_right)
  have 3: "\<not> any_word_in cardiac_keywords ''car crash, smoke from the engine''"
    "any_word_in trauma_keywords ''car crash, smoke from the engine''"
    "any_word_in fire_keywords ''car crash, smoke from the engine''"
    by (simp_all add: any_word_in_def cardiac_keywords_def trauma_keywords_def
        fire_keywords_def sublist_Cons_right)
  have 4: "\<not> any_word_in cardiac_keywords ''smoke in the kitchen''"
    "\<not> any_word_in trauma_keywords ''smoke in the kitchen''"
    "any_word_in fire_keywords ''smoke in the kitchen''"
    by (simp_all add: any_word_in_def cardiac_keywords_def trauma_keywords_def
        fire_keywords_def sublist_Cons_right)
  have 5: "\<not> any_word_in cardiac_keywords ''feeling dizzy''"
    "\<not> any_word_in trauma_keywords ''feeling dizzy''"
    "\<not> any_word_in fire_keywords ''feeling dizzy''"
    by (simp_all add: any_word_in_def cardiac_keywords_def trauma_keywords_def
        fire_keywords_def sublist_Cons_right)
  have 6: "\<not> any_word_in cardiac_keywords ''smoke in the hallway''"
    "\<not> any_word_in trauma_keywords ''smoke in the hallway''"
    "any_word_in fire_keywords ''smoke in the hallway''"
    by (simp_all add: any_word_in_def cardiac_keywords_def trauma_keywords_def
        fire_keywords_def sublist_Cons_right)
  have 7: "\<not> any_word_in cardiac_keywords (''hi'' @ combining_dot_above @ ''t by a car'')"
    "\<not> any_word_in trauma_keywords (''hi'' @ combining_dot_above @ ''t by a car'')"
    "\<not> any_word_in fire_keywords (''hi'' @ combining_dot_above @ ''t by a car'')"
    by (simp_all add: any_word_in_def cardiac_keywords_def trauma_keywords_def
        fire_keywords_def sublist_Cons_right combining_dot_above_def)
  from classification_first_match_wins [of "incident_of ''c-1'' ''cardiac event during a fire'' []"]
    classification_first_match_wins
      [of "incident_of ''c-2'' ''A FIRE broke out after a Cardiac arrest'' []"]
    classification_first_match_wins [of "incident_of ''c-3'' ''Car crash, smoke from the engine'' []"]
    classification_first_match_wins [of "incident_of ''c-4'' ''Smoke in the kitchen'' []"]
    classification_first_match_wins [of "incident_of ''c-5'' ''Feeling dizzy'' []"]
    classification_first_match_wins
      [of "incident_of ''c-6'' (''SMO'' @ kelvin_sign @ ''E in the hallway'') []"]
    classification_first_match_wins
      [of "incident_of ''c-7'' (''H'' @ capital_i_with_dot_above @ ''T by a car'') []"]
    1 2 3 4 5 6 7
  show ?thesis
    by (simp only: d lower_examples lower_beyond_ascii_examples simp_thms)
qed

section \<open>Properties of the allocation\<close>

lemma str_nat_examples:
  "str_nat 0 = ''0''" "str_nat 7 = ''7''" "str_nat 10 = ''10''" "str_nat 305 = ''305''"
  by (simp_all add: str_nat.simps digit_char_def)

text \<open>\<^verbatim>\<open>range(n)\<close> counts from 0 to \<^verbatim>\<open>n - 1\<close>, and is empty for \<^verbatim>\<open>n\<close> at most 0.\<close>

lemma py_range_eq: "py_range n = map int [0..<nat n]"
proof (induction "nat n" arbitrary: n)
  case 0
  then show ?case by (simp add: py_range_def)
next
  case (Suc k)
  then have n: "0 < n" "k = nat (n - 1)" by linarith+
  from Suc.hyps(1) [OF n(2)] have "py_range (n - 1) = map int [0..<nat (n - 1)]" .
  moreover have "py_range n = py_range (n - 1) @ [n - 1]"
    using n(1) by (simp add: py_range_def upto_rec2)
  moreover have "nat n = Suc (nat (n - 1))" using n(1) by linarith
  ultimately show ?case using n(1) by simp
qed

lemma length_py_range: "length (py_range n) = nat n"
  by (simp add: py_range_eq)

lemma str_int_int: "str_int (int k) = str_nat k"
  by (simp add: str_int_def)

lemma dispatch_labels:
  "map (\<lambda>i. ''Unit-'' @ str_int i) (py_range n) = map (\<lambda>k. ''Unit-'' @ str_nat k) [0..<nat n]"
  by (simp add: py_range_eq str_int_int)

lemma dispatch_order_eq:
  "dispatch_order (allocate_resources a) =
     map (\<lambda>i. ''Unit-'' @ str_int i)
       (py_range (ambulances_required (allocate_resources a)
                  + fire_trucks_required (allocate_resources a)))"
  by (simp add: allocate_resources_def Let_def)

lemma counts_nonneg:
  "0 \<le> ambulances_required (allocate_resources a) + fire_trucks_required (allocate_resources a)"
  by (simp add: allocate_resources_def Let_def)

lemma ambulances_ge_1: "1 \<le> ambulances_required (allocate_resources a)"
  by (simp add: allocate_resources_def Let_def)

lemma fire_trucks_nonneg: "0 \<le> fire_trucks_required (allocate_resources a)"
  by (simp add: allocate_resources_def Let_def)

lemma allocate_cardiac:
  assumes "incident_type a = ''CARDIAC''"
  shows "allocate_resources a =
     \<lparr>allocation_id = ''ALLOC-'' @ incident_id a, ambulances_required = 2,
      fire_trucks_required = 0, personnel_required = 6, estimated_cost = 1600,
      dispatch_order = [''Unit-0'', ''Unit-1'']\<rparr>"
  using assms
  by (simp add: allocate_resources_def py_range_def upto_rec1 str_int_def str_nat.simps
      digit_char_def)

text \<open>
  Claim C4. For every assessment of type TRAUMA with severity score 8, the allocation has
  2 ambulances, 1 fire truck, 8 personnel, an estimated cost of 2800, which is
  ambulances times 500 plus fire trucks times 1000 plus personnel times 100, and a
  dispatch order of length 3.
\<close>

theorem trauma_severity_8_allocation:
  assumes "incident_type a = ''TRAUMA''" and "severity_score a = 8"
  shows "ambulances_required (allocate_resources a) = 2
   \<and> fire_trucks_required (allocate_resources a) = 1
   \<and> personnel_required (allocate_resources a) = 8
   \<and> estimated_cost (allocate_resources a) = 2800
   \<and> estimated_cost (allocate_resources a)
       = ambulances_required (allocate_resources a) * 500
         + fire_trucks_required (allocate_resources a) * 1000
         + personnel_required (allocate_resources a) * 100
   \<and> length (dispatch_order (allocate_resources a)) = 3"
  using assms by (simp add: allocate_resources_def Let_def length_py_range)

theorem trauma_severity_8_allocation_witness:
  "incident_type (assessment_of ''TRAUMA'' 8) = ''TRAUMA''
   \<and> severity_score (assessment_of ''TRAUMA'' 8) = 8
   \<and> ambulances_required (allocate_resources (assessment_of ''TRAUMA'' 8)) = 2
   \<and> fire_trucks_required (allocate_resources (assessment_of ''TRAUMA'' 8)) = 1
   \<and> personnel_required (allocate_resources (assessment_of ''TRAUMA'' 8)) = 8
   \<and> estimated_cost (allocate_resources (assessment_of ''TRAUMA'' 8)) = 2800
   \<and> length (dispatch_order (allocate_resources (assessment_of ''TRAUMA'' 8))) = 3"
proof -
  have t: "incident_type (assessment_of ''TRAUMA'' 8) = ''TRAUMA''"
    and s: "severity_score (assessment_of ''TRAUMA'' 8) = 8"
    by (simp_all add: assessment_of_def)
  from trauma_severity_8_allocation [OF t s] t s show ?thesis by simp
qed

text \<open>
  Claim C6. For every assessment, the dispatch order of the allocation has exactly
  ambulances plus fire trucks entries, and it is the list of the labels "Unit-0",
  "Unit-1", ... up to that count less one, in ascending order of the index.
\<close>

theorem dispatch_order_labels:
  "int (length (dispatch_order (allocate_resources a)))
     = ambulances_required (allocate_resources a) + fire_trucks_required (allocate_resources a)
   \<and> dispatch_order (allocate_resources a)
     = map (\<lambda>k. ''Unit-'' @ str_nat k)
         [0..<nat (ambulances_required (allocate_resources a)
                   + fire_trucks_required (allocate_resources a))]"
proof
  show "int (length (dispatch_order (allocate_resources a)))
     = ambulances_required (allocate_resources a) + fire_trucks_required (allocate_resources a)"
    using counts_nonneg [of a] by (simp add: dispatch_order_eq [of a] length_py_range)
  show "dispatch_order (allocate_resources a)
     = map (\<lambda>k. ''Unit-'' @ str_nat k)
         [0..<nat (ambulances_required (allocate_resources a)
                   + fire_trucks_required (allocate_resources a))]"
    by (simp only: dispatch_order_eq [of a] dispatch_labels)
qed

text \<open>
  Claim C10. For every assessment, whatever its incident type and severity score, the
  allocation requires at least one ambulance, and its dispatch order is not empty.
\<close>

theorem at_least_one_ambulance:
  "1 \<le> ambulances_required (allocate_resources a)
   \<and> dispatch_order (allocate_resources a) \<noteq> []"
proof
  show "1 \<le> ambulances_required (allocate_resources a)"
    by (rule ambulances_ge_1)
  have "0 < nat (ambulances_required (allocate_resources a)
                 + fire_trucks_required (allocate_resources a))"
    using ambulances_ge_1 [of a] fire_trucks_nonneg [of a] by linarith
  then have "0 < length (dispatch_order (allocate_resources a))"
    by (simp add: dispatch_order_eq [of a] length_py_range)
  then show "dispatch_order (allocate_resources a) \<noteq> []"
    by simp
qed

section \<open>Properties of the coordinator\<close>

lemma classify_cardiac_call:
  "classify ''patient experiencing severe chest pain, unresponsive'' = (''CARDIAC'', 8)"
  by (simp add: classify_def any_word_in_def cardiac_keywords_def sublist_Cons_right)

lemma assess_cardiac_call:
  assumes "description i = ''Patient experiencing severe chest pain, unresponsive''"
    and "length (severity_indicators i) = 3"
  shows "assess_incident i =
     \<lparr>incident_id = call_id i, incident_type = ''CARDIAC'', severity_score = 9,
      medical_priority = ''CRITICAL'',
      recommended_response = ''Deploy specialized CARDIAC response team'',
      estimated_arrival_time = ''5-8 minutes''\<rparr>"
proof -
  have c: "classify (lower (description i)) = (''CARDIAC'', 8)"
    by (simp only: assms(1) lower_examples(6) classify_cardiac_call)
  have "raw_severity i = 19 / 2"
    by (simp add: raw_severity_def c assms(2))
  then have s: "clamped_severity i = 19 / 2"
    by (simp add: clamped_severity_def)
  have "\<lfloor>19 / 2 :: rat\<rfloor> = 9"
    by (rule floor_unique) simp_all
  then have f: "int_of_float (19 / 2) = 9"
    by (simp add: int_of_float_def)
  show ?thesis
    by (simp add: assess_incident_eq c s f)
qed

lemma get_after_process:
  "get_incident_status (snd (process_emergency_call now i self)) (call_id i) =
     Some \<lparr>incident = i, assessment = assess_incident i,
           resources = allocate_resources (assess_incident i),
           status = ''DISPATCHED'', timestamp_e = now\<rparr>"
  by (simp add: process_emergency_call_def Let_def get_incident_status_def)

lemma update_present:
  assumes "active_incidents self cid = Some entry"
  shows "update_incident_status cid st self =
     (True, self\<lparr>active_incidents := (active_incidents self)(cid \<mapsto> entry\<lparr>status := st\<rparr>)\<rparr>)"
  using assms by (simp add: update_incident_status_def)

lemma update_absent:
  assumes "cid \<notin> dom (active_incidents self)"
  shows "update_incident_status cid st self = (False, self)"
  using assms by (simp add: update_incident_status_def domIff)

text \<open>
  Claim C5. Processing an incident with call id "911-2024-001", description "Patient
  experiencing severe chest pain, unresponsive" and exactly three severity indicators
  gives type CARDIAC, score 9, priority CRITICAL, an allocation of 2 ambulances, 0 fire
  trucks and 6 personnel at an estimated cost of 1600, and the dispatch plan "Unit-0",
  "Unit-1"; the response carries these values and the registry holds the entry.
\<close>

theorem cardiac_call_end_to_end:
  assumes "call_id i = ''911-2024-001''"
    and "description i = ''Patient experiencing severe chest pain, unresponsive''"
    and "length (severity_indicators i) = 3"
  shows "incident_type (assess_incident i) = ''CARDIAC''
   \<and> severity_score (assess_incident i) = 9
   \<and> medical_priority (assess_incident i) = ''CRITICAL''
   \<and> ambulances_required (allocate_resources (assess_incident i)) = 2
   \<and> fire_trucks_required (allocate_resources (assess_incident i)) = 0
   \<and> personnel_required (allocate_resources (assess_incident i)) = 6
   \<and> estimated_cost (allocate_resources (assess_incident i)) = 1600
   \<and> dispatch_order (allocate_resources (assess_incident i)) = [''Unit-0'', ''Unit-1'']
   \<and> fst (process_emergency_call now i self) =
       \<lparr>call_id_r = ''911-2024-001'', incident_type_r = ''CARDIAC'', severity = 9,
        priority = ''CRITICAL'', dispatch_plan = [''Unit-0'', ''Unit-1''],
        estimated_arrival = ''5-8 minutes'', status_r = ''DISPATCHED''\<rparr>
   \<and> get_incident_status (snd (process_emergency_call now i self)) ''911-2024-001'' =
       Some \<lparr>incident = i, assessment = assess_incident i,
             resources = allocate_resources (assess_incident i),
             status = ''DISPATCHED'', timestamp_e = now\<rparr>"
proof -
  note a = assess_cardiac_call [OF assms(2) assms(3)]
  have t: "incident_type (assess_incident i) = ''CARDIAC''"
    by (simp add: a)
  note r = allocate_cardiac [OF t]
  have 1: "incident_type (assess_incident i) = ''CARDIAC''
   \<and> severity_score (assess_incident i) = 9
   \<and> medical_priority (assess_incident i) = ''CRITICAL''"
    by (simp add: a)
  have 2: "ambulances_required (allocate_resources (assess_incident i)) = 2
   \<and> fire_trucks_required (allocate_resources (assess_incident i)) = 0
   \<and> personnel_required (allocate_resources (assess_incident i)) = 6
   \<and> estimated_cost (allocate_resources (assess_incident i)) = 1600
   \<and> dispatch_order (allocate_resources (assess_incident i)) = [''Unit-0'', ''Unit-1'']"
    by (simp add: r)
  have 3: "fst (process_emergency_call now i self) =
       \<lparr>call_id_r = ''911-2024-001'', incident_type_r = ''CARDIAC'', severity = 9,
        priority = ''CRITICAL'', dispatch_plan = [''Unit-0'', ''Unit-1''],
        estimated_arrival = ''5-8 minutes'', status_r = ''DISPATCHED''\<rparr>"
    using 1 2 by (simp add: process_emergency_call_def Let_def assms(1) a)
  have 4: "get_incident_status (snd (process_emergency_call now i self)) ''911-2024-001'' =
       Some \<lparr>incident = i, assessment = assess_incident i,
             resources = allocate_resources (assess_incident i),
             status = ''DISPATCHED'', timestamp_e = now\<rparr>"
    using get_after_process [of now i self] by (simp only: assms(1))
  from 1 2 3 4 show ?thesis by blast
qed

theorem cardiac_call_end_to_end_witness:
  "call_id cardiac_incident = ''911-2024-001''
   \<and> description cardiac_incident = ''Patient experiencing severe chest pain, unresponsive''
   \<and> length (severity_indicators cardiac_incident) = 3
   \<and> severity_score (assess_incident cardiac_incident) = 9
   \<and> estimated_cost (allocate_resources (assess_incident cardiac_incident)) = 1600
   \<and> dispatch_plan (fst (process_emergency_call ''2024-01-01T00:00:05'' cardiac_incident
         (init ''emergency-response'' None))) = [''Unit-0'', ''Unit-1'']"
proof -
  have h1: "call_id cardiac_incident = ''911-2024-001''"
    and h2: "description cardiac_incident
               = ''Patient experiencing severe chest pain, unresponsive''"
    and h3: "length (severity_indicators cardiac_incident) = 3"
    by (simp_all add: cardiac_incident_def)
  from cardiac_call_end_to_end
         [OF h1 h2 h3, of "''2024-01-01T00:00:05''" "init ''emergency-response'' None"]
       h1 h2 h3
  show ?thesis by simp
qed

text \<open>
  Claim C7. After a call has been processed, looking its id up returns the entry made of
  the incident, its assessment and its allocation, with status DISPATCHED; updating that
  id to "RESOLVED" then succeeds, and the lookup shows the same entry with status
  "RESOLVED"; and processing a further incident under the same id replaces the entry by
  the new one, again DISPATCHED.
\<close>

theorem registry_round_trip:
  assumes "call_id i2 = call_id i"
  shows "let e1 = \<lparr>incident = i, assessment = assess_incident i,
                   resources = allocate_resources (assess_incident i),
                   status = ''DISPATCHED'', timestamp_e = now\<rparr>;
             s1 = snd (process_emergency_call now i self);
             u = update_incident_status (call_id i) ''RESOLVED'' s1;
             s3 = snd (process_emergency_call now2 i2 (snd u))
         in get_incident_status s1 (call_id i) = Some e1
          \<and> fst u = True
          \<and> get_incident_status (snd u) (call_id i) = Some (e1\<lparr>status := ''RESOLVED''\<rparr>)
          \<and> get_incident_status s3 (call_id i) =
              Some \<lparr>incident = i2, assessment = assess_incident i2,
                    resources = allocate_resources (assess_incident i2),
                    status = ''DISPATCHED'', timestamp_e = now2\<rparr>"
proof -
  define s1 where "s1 = snd (process_emergency_call now i self)"
  define e1 where "e1 = \<lparr>incident = i, assessment = assess_incident i,
                   resources = allocate_resources (assess_incident i),
                   status = ''DISPATCHED'', timestamp_e = now\<rparr>"
  define u where "u = update_incident_status (call_id i) ''RESOLVED'' s1"
  have g1: "get_incident_status s1 (call_id i) = Some e1"
    unfolding s1_def e1_def by (rule get_after_process)
  then have "active_incidents s1 (call_id i) = Some e1"
    by (simp add: get_incident_status_def)
  then have u_eq: "u = (True, s1\<lparr>active_incidents :=
                       (active_incidents s1)(call_id i \<mapsto> e1\<lparr>status := ''RESOLVED''\<rparr>)\<rparr>)"
    unfolding u_def by (rule update_present)
  have g2: "get_incident_status (snd u) (call_id i) = Some (e1\<lparr>status := ''RESOLVED''\<rparr>)"
    by (simp add: u_eq get_incident_status_def)
  have g3: "get_incident_status (snd (process_emergency_call now2 i2 (snd u))) (call_id i) =
              Some \<lparr>incident = i2, assessment = assess_incident i2,
                    resources = allocate_resources (assess_incident i2),
                    status = ''DISPATCHED'', timestamp_e = now2\<rparr>"
    using get_after_process [of now2 i2 "snd u"] by (simp add: assms)
  from g1 g2 g3 u_eq show ?thesis
    unfolding Let_def s1_def [symmetric] e1_def [symmetric] u_def [symmetric] by simp
qed

theorem registry_round_trip_witness:
  "call_id (incident_of ''911-2024-001'' ''Kitchen fire, heavy smoke'' [''smoke''])
     = call_id cardiac_incident
   \<and> fst (update_incident_status ''911-2024-001'' ''RESOLVED''
        (snd (process_emergency_call ''2024-01-01T00:00:05'' cardiac_incident
           (init ''emergency-response'' None)))) = True
   \<and> get_incident_status (snd (update_incident_status ''911-2024-001'' ''RESOLVED''
        (snd (process_emergency_call ''2024-01-01T00:00:05'' cardiac_incident
           (init ''emergency-response'' None))))) ''911-2024-001''
       = Some \<lparr>incident = cardiac_incident, assessment = assess_incident cardiac_incident,
           resources = allocate_resources (assess_incident cardiac_incident),
           status = ''RESOLVED'', timestamp_e = ''2024-01-01T00:00:05''\<rparr>
   \<and> map_option incident (get_incident_status
        (snd (process_emergency_call ''2024-01-01T00:09:00''
           (incident_of ''911-2024-001'' ''Kitchen fire, heavy smoke'' [''smoke''])
           (snd (update_incident_status ''911-2024-001'' ''RESOLVED''
             (snd (process_emergency_call ''2024-01-01T00:00:05'' cardiac_incident
               (init ''emergency-response'' None))))))) ''911-2024-001'')
       = Some (incident_of ''911-2024-001'' ''Kitchen fire, heavy smoke'' [''smoke''])"
proof -
  have cid: "call_id cardiac_incident = ''911-2024-001''"
    by (simp add: cardiac_incident_def)
  have h: "call_id (incident_of ''911-2024-001'' ''Kitchen fire, heavy smoke'' [''smoke''])
     = call_id cardiac_incident"
    by (simp add: incident_of_def cardiac_incident_def)
  from registry_round_trip
         [OF h, of "''2024-01-01T00:00:05''" "init ''emergency-response'' None"
            "''2024-01-01T00:09:00''"] h
  show ?thesis by (simp add: Let_def cid)
qed

text \<open>
  Claim C8. For every coordinator state, call id and status string: when the id is not
  in the registry, the update returns false and leaves the state as it was; when the id
  is in the registry, the update returns true, the entry under that id keeps all its
  fields but the status, which becomes the given string whatever it is, every other
  entry is as before, and so are the other fields of the coordinator.
\<close>

theorem update_incident_status_result:
  "(cid \<notin> dom (active_incidents self) \<longrightarrow>
      update_incident_status cid st self = (False, self))
   \<and> (\<forall>entry. active_incidents self cid = Some entry \<longrightarrow>
        fst (update_incident_status cid st self) = True
        \<and> get_incident_status (snd (update_incident_status cid st self)) cid
            = Some (entry\<lparr>status := st\<rparr>)
        \<and> (\<forall>other. other \<noteq> cid \<longrightarrow>
              get_incident_status (snd (update_incident_status cid st self)) other
                = get_incident_status self other)
        \<and> project_id (snd (update_incident_status cid st self)) = project_id self
        \<and> api_key (snd (update_incident_status cid st self)) = api_key self
        \<and> session_memory (snd (update_incident_status cid st self)) = session_memory self)"
proof (intro conjI allI impI)
  assume "cid \<notin> dom (active_incidents self)"
  then show "update_incident_status cid st self = (False, self)"
    by (rule update_absent)
next
  fix entry assume e: "active_incidents self cid = Some entry"
  note u = update_present [OF e, of st]
  show "fst (update_incident_status cid st self) = True" by (simp add: u)
  show "get_incident_status (snd (update_incident_status cid st self)) cid
            = Some (entry\<lparr>status := st\<rparr>)"
    by (simp add: u get_incident_status_def)
  show "project_id (snd (update_incident_status cid st self)) = project_id self"
    by (simp add: u)
  show "api_key (snd (update_incident_status cid st self)) = api_key self"
    by (simp add: u)
  show "session_memory (snd (update_incident_status cid st self)) = session_memory self"
    by (simp add: u)
  fix other :: string assume "other \<noteq> cid"
  then show "get_incident_status (snd (update_incident_status cid st self)) other
                = get_incident_status self other"
    by (simp add: u get_incident_status_def)
qed

theorem update_incident_status_result_witness:
  "''911-2024-001'' \<notin> dom (active_incidents (init ''emergency-response'' None))
   \<and> update_incident_status ''911-2024-001'' ''RESOLVED'' (init ''emergency-response'' None)
       = (False, init ''emergency-response'' None)
   \<and> active_incidents
        (snd (process_emergency_call ''2024-01-01T00:00:05'' cardiac_incident
           (init ''emergency-response'' None))) ''911-2024-001''
       = Some \<lparr>incident = cardiac_incident, assessment = assess_incident cardiac_incident,
           resources = allocate_resources (assess_incident cardiac_incident),
           status = ''DISPATCHED'', timestamp_e = ''2024-01-01T00:00:05''\<rparr>
   \<and> fst (update_incident_status ''911-2024-001'' ''no such status''
        (snd (process_emergency_call ''2024-01-01T00:00:05'' cardiac_incident
           (init ''emergency-response'' None)))) = True
   \<and> get_incident_status (snd (update_incident_status ''911-2024-001'' ''no such status''
        (snd (process_emergency_call ''2024-01-01T00:00:05'' cardiac_incident
           (init ''emergency-response'' None))))) ''911-2024-001''
       = Some \<lparr>incident = cardiac_incident, assessment = assess_incident cardiac_incident,
           resources = allocate_resources (assess_incident cardiac_incident),
           status = ''no such status'', timestamp_e = ''2024-01-01T00:00:05''\<rparr>"
proof -
  have absent: "''911-2024-001'' \<notin> dom (active_incidents (init ''emergency-response'' None))"
    by (simp add: init_def)
  have cid: "call_id cardiac_incident = ''911-2024-001''"
    by (simp add: cardiac_incident_def)
  have present: "active_incidents
        (snd (process_emergency_call ''2024-01-01T00:00:05'' cardiac_incident
           (init ''emergency-response'' None))) ''911-2024-001''
       = Some \<lparr>incident = cardiac_incident, assessment = assess_incident cardiac_incident,
           resources = allocate_resources (assess_incident cardiac_incident),
           status = ''DISPATCHED'', timestamp_e = ''2024-01-01T00:00:05''\<rparr>"
    using get_after_process
            [of "''2024-01-01T00:00:05''" cardiac_incident "init ''emergency-response'' None"]
    by (simp only: cid get_incident_status_def)
  from update_incident_status_result
         [of "''911-2024-001''" "init ''emergency-response'' None" "''RESOLVED''"]
       update_incident_status_result
         [of "''911-2024-001''"
             "snd (process_emergency_call ''2024-01-01T00:00:05'' cardiac_incident
                (init ''emergency-response'' None))"
             "''no such status''"]
       absent present
  show ?thesis by simp
qed

end
